theory Spec2Isabelle
  imports Complex_Main
begin

section \<open>Pixel arrays\<close>

text \<open>
  The notebook \<^verbatim>\<open>section_4.6.ipynb\<close> works on two-dimensional numpy arrays. An array is
  modelled by its rows together with its number of columns (kept apart, so that a shape
  with zero rows still has a column count). Pixel values are exact reals: the rounding,
  the infinities and the nan of float64 are outside this model.
\<close>

record array2 =
  ncols :: nat
  rows :: "real list list"

definition wf_array :: "array2 \<Rightarrow> bool" where
  "wf_array a = list_all (\<lambda>r. length r = ncols a) (rows a)"

definition nrows :: "array2 \<Rightarrow> nat" where
  "nrows a = length (rows a)"

definition shape :: "array2 \<Rightarrow> nat \<times> nat" where
  "shape a = (nrows a, ncols a)"

text \<open>\<^verbatim>\<open>np.full((r, c), v)\<close>: the array of the given shape filled with one value.\<close>

definition full :: "nat \<Rightarrow> nat \<Rightarrow> real \<Rightarrow> array2" where
  "full r c v = \<lparr>ncols = c, rows = replicate r (replicate c v)\<rparr>"

section \<open>Exceptions\<close>

text \<open>
  The exceptions that the notebook's calls can raise. \<open>NanResult\<close> is not an exception:
  it marks the one place where numpy leaves the pixel model (the median of an empty stack
  is the scalar nan, returned with a warning).
\<close>

datatype stop =
    FileNotFoundError
  | OSError
  | IndexError
  | KeyError
  | ValueError
  | TypeError
  | MaxIterError
  | NanResult

section \<open>numpy arithmetic with broadcasting\<close>

text \<open>
  Two axis lengths are compatible when they are equal or one of them is 1; the
  broadcast length is then the other one.
\<close>

definition bdim :: "nat \<Rightarrow> nat \<Rightarrow> nat option" where
  "bdim m n = (if m = n then Some m else if m = 1 then Some n else if n = 1 then Some m else None)"

definition stretch :: "nat \<Rightarrow> 'a list \<Rightarrow> 'a list" where
  "stretch n xs = (if length xs = 1 \<and> n \<noteq> 1 then replicate n (hd xs) else xs)"

definition broadcast_to :: "nat \<Rightarrow> nat \<Rightarrow> array2 \<Rightarrow> real list list" where
  "broadcast_to r c a = stretch r (map (stretch c) (rows a))"

definition np_binop :: "(real \<Rightarrow> real \<Rightarrow> real) \<Rightarrow> array2 \<Rightarrow> array2 \<Rightarrow> stop + array2" where
  "np_binop f a b =
     (case (bdim (nrows a) (nrows b), bdim (ncols a) (ncols b)) of
        (Some r, Some c) \<Rightarrow>
          Inr \<lparr>ncols = c,
               rows = map2 (map2 f) (broadcast_to r c a) (broadcast_to r c b)\<rparr>
      | _ \<Rightarrow> Inl ValueError)"

definition np_sub :: "array2 \<Rightarrow> array2 \<Rightarrow> stop + array2" where
  "np_sub a b = np_binop (\<lambda>x y. x - y) a b"


section \<open>The dark subtractor\<close>

text \<open>
  \<^verbatim>\<open>def subtract_median_dark_from_pretty(median_dark, median_pretty):
      return median_pretty - median_dark\<close>
\<close>

definition subtract_median_dark_from_pretty :: "array2 \<Rightarrow> array2 \<Rightarrow> stop + array2" where
  "subtract_median_dark_from_pretty median_dark median_pretty = np_sub median_pretty median_dark"

section \<open>The world of the notebook\<close>

text \<open>
  A FITS header is a list of cards. A path names no file, a file that cannot be read as
  FITS, or a FITS file; of a FITS file the model keeps the primary header and the primary
  data, which astropy gives as \<^verbatim>\<open>None\<close> when the primary unit holds no image.
\<close>

type_synonym header = "(string \<times> string) list"

datatype fits_file = Missing | Unreadable | Fits header "array2 option"

text \<open>
  What the notebook takes from outside: \<open>str_format\<close> is \<^verbatim>\<open>str.format\<close> with one
  integer argument, \<open>disk\<close> is the file system read by \<^verbatim>\<open>fits.open\<close>,
  \<open>aa_register\<close> is \<^verbatim>\<open>astroalign.register(source, target)\<close>, which returns a
  transformed copy of its first argument (the source) on the pixel grid of its second
  argument (the target) together with a footprint mask, and \<open>can_write\<close> says where
  \<^verbatim>\<open>writeto\<close> succeeds.
\<close>

record env =
  str_format :: "string \<Rightarrow> int \<Rightarrow> stop + string"
  disk :: "string \<Rightarrow> fits_file"
  aa_register :: "array2 \<Rightarrow> array2 \<Rightarrow> stop + array2 \<times> bool list list"
  can_write :: "string \<Rightarrow> bool"

text \<open>
  \<^verbatim>\<open>with fits.open(file_path) as hdul: header = hdul[0].header; data = hdul[0].data\<close>
\<close>

definition fits_open :: "env \<Rightarrow> string \<Rightarrow> stop + header \<times> array2 option" where
  "fits_open w file_path =
     (case disk w file_path of
        Missing \<Rightarrow> Inl FileNotFoundError
      | Unreadable \<Rightarrow> Inl OSError
      | Fits header data \<Rightarrow> Inr (header, data))"

section \<open>The frame loaders\<close>

text \<open>
  Both loaders run \<^verbatim>\<open>for i in range(start_index, end_index + 1)\<close>, format the path, open
  the file and append \<^verbatim>\<open>(header, data)\<close>. The loop is a recursion over the indices of the
  range with the list built so far; next to the result it returns the paths handed to
  \<^verbatim>\<open>fits.open\<close>, in order. An exception leaves the loop at once, and the list built so
  far is lost with it.
\<close>

type_synonym frames = "(header \<times> array2 option) list"

fun pretty_loop :: "env \<Rightarrow> string \<Rightarrow> int list \<Rightarrow> frames \<Rightarrow> string list
    \<Rightarrow> (stop + frames) \<times> string list" where
  "pretty_loop w file_template [] pretty_images_info opened = (Inr pretty_images_info, opened)"
| "pretty_loop w file_template (i # is) pretty_images_info opened =
     (case str_format w file_template i of
        Inl x \<Rightarrow> (Inl x, opened)
      | Inr file_path \<Rightarrow>
          (case fits_open w file_path of
             Inl x \<Rightarrow> (Inl x, opened @ [file_path])
           | Inr (header, data) \<Rightarrow>
               pretty_loop w file_template is (pretty_images_info @ [(header, data)])
                 (opened @ [file_path])))"

definition read_pretty_images :: "env \<Rightarrow> string \<Rightarrow> int \<Rightarrow> int \<Rightarrow> (stop + frames) \<times> string list" where
  "read_pretty_images w file_template start_index end_index =
     pretty_loop w file_template [start_index..end_index] [] []"

fun dark_loop :: "env \<Rightarrow> string \<Rightarrow> int list \<Rightarrow> frames \<Rightarrow> string list
    \<Rightarrow> (stop + frames) \<times> string list" where
  "dark_loop w file_template [] dark_frame_info opened = (Inr dark_frame_info, opened)"
| "dark_loop w file_template (i # is) dark_frame_info opened =
     (case str_format w file_template i of
        Inl x \<Rightarrow> (Inl x, opened)
      | Inr file_path \<Rightarrow>
          (case fits_open w file_path of
             Inl x \<Rightarrow> (Inl x, opened @ [file_path])
           | Inr (header, data) \<Rightarrow>
               dark_loop w file_template is (dark_frame_info @ [(header, data)])
                 (opened @ [file_path])))"

definition read_dark_frames :: "env \<Rightarrow> string \<Rightarrow> int \<Rightarrow> int \<Rightarrow> (stop + frames) \<times> string list" where
  "read_dark_frames w file_template start_index end_index =
     dark_loop w file_template [start_index..end_index] [] []"

section \<open>The median reducer\<close>

text \<open>
  \<^verbatim>\<open>np.median\<close> of a one-dimensional array: the middle of the sorted values, or the mean
  of the two middle ones when their number is even.
\<close>

definition np_median1 :: "real list \<Rightarrow> real" where
  "np_median1 xs =
     (let s = sort xs; n = length xs
      in if odd n then s ! (n div 2) else (s ! (n div 2 - 1) + s ! (n div 2)) / 2)"

text \<open>
  \<^verbatim>\<open>np.array(data_list)\<close> (numpy 1.24 or later): the empty list gives an empty
  one-dimensional array, a list of \<^verbatim>\<open>None\<close> an array of objects, a list of arrays of
  one shape a three-dimensional stack; every other list is inhomogeneous and raises
  \<^verbatim>\<open>ValueError\<close>.
\<close>

datatype stacked = Empty1D | Objects nat | Stack3 nat nat "array2 list"

fun images :: "array2 option list \<Rightarrow> array2 list" where
  "images [] = []"
| "images (None # ds) = images ds"
| "images (Some a # ds) = a # images ds"

fun np_array :: "array2 option list \<Rightarrow> stop + stacked" where
  "np_array [] = Inr Empty1D"
| "np_array (d # ds) =
     (if list_all (\<lambda>x. x = None) (d # ds) then Inr (Objects (Suc (length ds)))
      else case d of
        None \<Rightarrow> Inl ValueError
      | Some a \<Rightarrow>
          if list_all (\<lambda>x. case x of None \<Rightarrow> False | Some b \<Rightarrow> shape b = shape a) ds
          then Inr (Stack3 (nrows a) (ncols a) (a # images ds))
          else Inl ValueError)"

text \<open>
  \<^verbatim>\<open>np.median(stack, axis=0)\<close>: the median of every pixel over the frames of the stack.
  On an array of \<^verbatim>\<open>None\<close> the comparison or the mean raises \<^verbatim>\<open>TypeError\<close>; on the
  empty array the result is the scalar nan.
\<close>

fun np_median_axis0 :: "stacked \<Rightarrow> stop + array2" where
  "np_median_axis0 Empty1D = Inl NanResult"
| "np_median_axis0 (Objects n) = Inl TypeError"
| "np_median_axis0 (Stack3 r c fs) =
     Inr \<lparr>ncols = c,
          rows = map (\<lambda>i. map (\<lambda>j. np_median1 (map (\<lambda>f. rows f ! i ! j) fs)) [0..<c]) [0..<r]\<rparr>"

text \<open>
  \<^verbatim>\<open>def calculate_median(data_list):
      return np.median(np.array(data_list), axis=0)\<close>
\<close>

definition calculate_median :: "array2 option list \<Rightarrow> stop + array2" where
  "calculate_median data_list =
     (case np_array data_list of Inl x \<Rightarrow> Inl x | Inr stack \<Rightarrow> np_median_axis0 stack)"

section \<open>The notebook's run\<close>

text \<open>
  The four templates of the notebook; \<open>CHR 0x5C\<close> is the backslash of the Windows paths.
\<close>

definition fits_dir :: string where
  "fits_dir = ''..'' @ [CHR 0x5C] @ ''FITS_Files'' @ [CHR 0x5C]"

definition dark_frame_file_template :: string where
  "dark_frame_file_template = fits_dir @ ''ring_nebula_dark_frame_10_sec.{:08d}.DARK.FIT''"

definition red_file_template :: string where
  "red_file_template = fits_dir @ ''ring_nebula_for_10_sec_red.{:08d}.FIT''"

definition blue_file_template :: string where
  "blue_file_template = fits_dir @ ''ring_nebula_for_10_sec_blue.{:08d}.FIT''"

definition visible_file_template :: string where
  "visible_file_template = fits_dir @ ''ring_nebula_for_10_sec_visible.{:08d}.FIT''"

text \<open>
  Reading: the dark frames 4 to 6, then the red, blue and visible frames 0 to 2. The
  result is \<^verbatim>\<open>(dark_frames, pretty_red_images, pretty_blue_images, pretty_visible_images)\<close>.
\<close>

definition load_stage :: "env \<Rightarrow> stop + frames \<times> frames \<times> frames \<times> frames" where
  "load_stage w =
     (case fst (read_dark_frames w dark_frame_file_template 4 6) of
        Inl x \<Rightarrow> Inl x
      | Inr dark_frames \<Rightarrow>
     (case fst (read_pretty_images w red_file_template 0 2) of
        Inl x \<Rightarrow> Inl x
      | Inr pretty_red_images \<Rightarrow>
     (case fst (read_pretty_images w blue_file_template 0 2) of
        Inl x \<Rightarrow> Inl x
      | Inr pretty_blue_images \<Rightarrow>
     (case fst (read_pretty_images w visible_file_template 0 2) of
        Inl x \<Rightarrow> Inl x
      | Inr pretty_visible_images \<Rightarrow>
          Inr (dark_frames, pretty_red_images, pretty_blue_images, pretty_visible_images)))))"

text \<open>
  The four medians, then the three subtractions. The result is
  \<^verbatim>\<open>(subtracted_red, subtracted_blue, subtracted_visible)\<close>.
\<close>

definition calibrate_stage :: "frames \<times> frames \<times> frames \<times> frames \<Rightarrow> stop + array2 \<times> array2 \<times> array2" where
  "calibrate_stage loaded =
     (case loaded of (dark_frames, pretty_red_images, pretty_blue_images, pretty_visible_images) \<Rightarrow>
      let dark_data = map snd dark_frames;
          red_data = map snd pretty_red_images;
          blue_data = map snd pretty_blue_images;
          visible_data = map snd pretty_visible_images
      in
     (case calculate_median dark_data of Inl x \<Rightarrow> Inl x | Inr median_dark \<Rightarrow>
     (case calculate_median red_data of Inl x \<Rightarrow> Inl x | Inr median_red \<Rightarrow>
     (case calculate_median blue_data of Inl x \<Rightarrow> Inl x | Inr median_blue \<Rightarrow>
     (case calculate_median visible_data of Inl x \<Rightarrow> Inl x | Inr median_visible \<Rightarrow>
     (case subtract_median_dark_from_pretty median_dark median_red of
        Inl x \<Rightarrow> Inl x | Inr subtracted_red \<Rightarrow>
     (case subtract_median_dark_from_pretty median_dark median_blue of
        Inl x \<Rightarrow> Inl x | Inr subtracted_blue \<Rightarrow>
     (case subtract_median_dark_from_pretty median_dark median_visible of
        Inl x \<Rightarrow> Inl x | Inr subtracted_visible \<Rightarrow>
          Inr (subtracted_red, subtracted_blue, subtracted_visible)))))))))"

text \<open>
  \<^verbatim>\<open>calibrated_images = [subtracted_visible, subtracted_blue, subtracted_red]
  aligned_blue, footprint_blue = aa.register(calibrated_images[0], calibrated_images[1])
  aligned_red, footprint_red = aa.register(calibrated_images[0], calibrated_images[2])\<close>
  The result is what the three files are written from, with the two footprints:
  \<^verbatim>\<open>((aligned_blue, footprint_blue), (aligned_red, footprint_red), calibrated_images[0])\<close>.
\<close>

definition align_stage :: "env \<Rightarrow> array2 \<times> array2 \<times> array2
    \<Rightarrow> stop + (array2 \<times> bool list list) \<times> (array2 \<times> bool list list) \<times> array2" where
  "align_stage w subtracted =
     (case subtracted of (subtracted_red, subtracted_blue, subtracted_visible) \<Rightarrow>
      let calibrated_images = [subtracted_visible, subtracted_blue, subtracted_red]
      in
     (case aa_register w (calibrated_images ! 0) (calibrated_images ! 1) of
        Inl x \<Rightarrow> Inl x
      | Inr (aligned_blue, footprint_blue) \<Rightarrow>
     (case aa_register w (calibrated_images ! 0) (calibrated_images ! 2) of
        Inl x \<Rightarrow> Inl x
      | Inr (aligned_red, footprint_red) \<Rightarrow>
          Inr ((aligned_blue, footprint_blue), (aligned_red, footprint_red),
               calibrated_images ! 0))))"

text \<open>
  \<^verbatim>\<open>fits.PrimaryHDU(a).writeto(path, overwrite=True)\<close> on the written files, a map from
  paths to arrays: the file is replaced, or the write raises and leaves the files as
  they are.
\<close>

type_synonym written = "string \<rightharpoonup> array2"

definition writeto :: "env \<Rightarrow> string \<Rightarrow> array2 \<Rightarrow> written \<Rightarrow> stop option \<times> written" where
  "writeto w path a out =
     (if can_write w path then (None, out(path \<mapsto> a)) else (Some OSError, out))"

definition write_stage :: "env \<Rightarrow> array2 \<Rightarrow> array2 \<Rightarrow> array2 \<Rightarrow> written \<Rightarrow> stop option \<times> written" where
  "write_stage w aligned_blue aligned_red green out =
     (case writeto w ''aligned_blue.fits'' aligned_blue out of
        (Some x, out1) \<Rightarrow> (Some x, out1)
      | (None, out1) \<Rightarrow>
     (case writeto w ''aligned_red.fits'' aligned_red out1 of
        (Some x, out2) \<Rightarrow> (Some x, out2)
      | (None, out2) \<Rightarrow> writeto w ''aligned_green.fits'' green out2))"

text \<open>
  The whole run, from the files on disk to the written files. The first exception ends
  it; \<open>None\<close> in the first component says that the run reached its end.
\<close>

definition calibrated :: "env \<Rightarrow> stop + array2 \<times> array2 \<times> array2" where
  "calibrated w = (case load_stage w of Inl x \<Rightarrow> Inl x | Inr loaded \<Rightarrow> calibrate_stage loaded)"

definition aligned :: "env \<Rightarrow> stop + (array2 \<times> bool list list) \<times> (array2 \<times> bool list list) \<times> array2" where
  "aligned w = (case calibrated w of Inl x \<Rightarrow> Inl x | Inr subtracted \<Rightarrow> align_stage w subtracted)"

definition pipeline :: "env \<Rightarrow> written \<Rightarrow> stop option \<times> written" where
  "pipeline w out =
     (case aligned w of
        Inl x \<Rightarrow> (Some x, out)
      | Inr ((aligned_blue, footprint_blue), (aligned_red, footprint_red), green) \<Rightarrow>
          write_stage w aligned_blue aligned_red green out)"

section \<open>A concrete world\<close>

text \<open>
  \<^verbatim>\<open>str.format\<close> on a template whose one replacement field is \<^verbatim>\<open>{:08d}\<close>, as in the
  four templates above: the decimal digits of the index, filled with zeros after the
  sign to eight characters. Templates with other fields are not its domain.
\<close>

fun digits :: "nat \<Rightarrow> string" where
  "digits n = (if n < 10 then [''0123456789'' ! n] else digits (n div 10) @ [''0123456789'' ! (n mod 10)])"

definition d08 :: "int \<Rightarrow> string" where
  "d08 i =
     (let sign = (if i < 0 then ''-'' else []); ds = digits (nat \<bar>i\<bar>)
      in sign @ replicate (8 - length sign - length ds) (CHR ''0'') @ ds)"

fun fill_field :: "string \<Rightarrow> string \<Rightarrow> string" where
  "fill_field [] v = []"
| "fill_field (c # cs) v =
     (if take 6 (c # cs) = ''{:08d}'' then v @ drop 5 cs else c # fill_field cs v)"

definition format_08d :: "string \<Rightarrow> int \<Rightarrow> stop + string" where
  "format_08d file_template i = Inr (fill_field file_template (d08 i))"

text \<open>
  A disk with the twelve frames of the notebook, each frame of a sequence filled with
  one value, and every other path missing.
\<close>

definition frame_paths :: "string \<Rightarrow> int list \<Rightarrow> string list" where
  "frame_paths file_template idx = map (\<lambda>i. fill_field file_template (d08 i)) idx"

definition constant_disk :: "nat \<Rightarrow> nat \<Rightarrow> real \<Rightarrow> real \<Rightarrow> real \<Rightarrow> real \<Rightarrow> string \<Rightarrow> fits_file" where
  "constant_disk r c dark red blue visible path =
     (if path \<in> set (frame_paths dark_frame_file_template [4, 5, 6]) then Fits [] (Some (full r c dark))
      else if path \<in> set (frame_paths red_file_template [0, 1, 2]) then Fits [] (Some (full r c red))
      else if path \<in> set (frame_paths blue_file_template [0, 1, 2]) then Fits [] (Some (full r c blue))
      else if path \<in> set (frame_paths visible_file_template [0, 1, 2]) then Fits [] (Some (full r c visible))
      else Missing)"

text \<open>
  A registration for frames that already share one pixel grid: the transform found is
  the identity, the source comes back unchanged and no pixel of the footprint is masked.
\<close>

definition register_same_grid :: "array2 \<Rightarrow> array2 \<Rightarrow> stop + array2 \<times> bool list list" where
  "register_same_grid source target =
     Inr (source, replicate (nrows target) (replicate (ncols target) False))"

definition constant_world :: "nat \<Rightarrow> nat \<Rightarrow> real \<Rightarrow> real \<Rightarrow> real \<Rightarrow> real \<Rightarrow> env" where
  "constant_world r c dark red blue visible =
     \<lparr>str_format = format_08d,
      disk = constant_disk r c dark red blue visible,
      aa_register = register_same_grid,
      can_write = (\<lambda>path. True)\<rparr>"

section \<open>Vocabulary of the properties\<close>


definition frame_at :: "env \<Rightarrow> string \<Rightarrow> int \<Rightarrow> (header \<times> array2 option) option" where
  "frame_at w file_template i =
     (case str_format w file_template i of
        Inl x \<Rightarrow> None
      | Inr file_path \<Rightarrow>
          (case disk w file_path of
             Missing \<Rightarrow> None
           | Unreadable \<Rightarrow> None
           | Fits header data \<Rightarrow> Some (header, data)))"

text \<open>Two shapes that numpy can broadcast against each other.\<close>

definition broadcastable :: "nat \<times> nat \<Rightarrow> nat \<times> nat \<Rightarrow> bool" where
  "broadcastable s t = (bdim (fst s) (fst t) \<noteq> None \<and> bdim (snd s) (snd t) \<noteq> None)"

section \<open>Arithmetic on arrays of one shape\<close>

lemma bdim_same: "bdim n n = Some n"
  by (simp add: bdim_def)

lemma stretch_row: "length r = c \<Longrightarrow> stretch c r = r"
  by (auto simp: stretch_def)

lemma broadcast_to_own: "wf_array a \<Longrightarrow> broadcast_to (nrows a) (ncols a) a = rows a"
proof -
  assume "wf_array a"
  then have "map (stretch (ncols a)) (rows a) = rows a"
    by (simp add: wf_array_def list_all_iff stretch_row map_idI)
  then show ?thesis
    by (simp add: broadcast_to_def nrows_def stretch_def)
qed

lemma np_binop_same_shape:
  assumes "wf_array a" "wf_array b" "shape a = shape b"
  shows "np_binop f a b = Inr \<lparr>ncols = ncols a, rows = map2 (map2 f) (rows a) (rows b)\<rparr>"
proof -
  from assms(3) have n: "nrows b = nrows a" and c: "ncols b = ncols a"
    by (simp_all add: shape_def)
  have "broadcast_to (nrows a) (ncols a) b = rows b"
    using broadcast_to_own [OF assms(2)] n c by simp
  then show ?thesis
    using broadcast_to_own [OF assms(1)] n c by (simp add: np_binop_def bdim_same)
qed





lemma wf_full: "wf_array (full r c v)"
  by (simp add: wf_array_def full_def list_all_iff)

lemma shape_full: "shape (full r c v) = (r, c)"
  by (simp add: shape_def nrows_def full_def)

lemma map2_replicate: "map2 f (replicate n x) (replicate n y) = replicate n (f x y)"
  by (simp add: zip_replicate)

lemma subtract_full:
  "subtract_median_dark_from_pretty (full r c d) (full r c p) = Inr (full r c (p - d))"
proof -
  have "np_binop (\<lambda>x y. x - y) (full r c p) (full r c d)
          = Inr \<lparr>ncols = ncols (full r c p),
                 rows = map2 (map2 (\<lambda>x y. x - y)) (rows (full r c p)) (rows (full r c d))\<rparr>"
    by (intro np_binop_same_shape) (simp_all add: wf_full shape_full)
  then show ?thesis
    by (simp add: subtract_median_dark_from_pretty_def np_sub_def full_def map2_replicate)
qed

lemma np_binop_Inl: "(np_binop f a b = Inl ValueError) = (\<not> broadcastable (shape a) (shape b))"
  by (auto simp: np_binop_def broadcastable_def shape_def split: option.splits)

lemma np_binop_cases: "np_binop f a b = Inl ValueError \<or> (\<exists>x. np_binop f a b = Inr x)"
  by (auto simp: np_binop_def split: option.splits)

lemma broadcastable_sym: "broadcastable s t = broadcastable t s"
  by (auto simp: broadcastable_def bdim_def split: if_splits)

section \<open>The dark subtractor: round trip\<close>




section \<open>The concrete world, evaluated\<close>

lemma dark_paths:
  "fill_field dark_frame_file_template (d08 4) = fits_dir @ ''ring_nebula_dark_frame_10_sec.00000004.DARK.FIT''"
  "fill_field dark_frame_file_template (d08 5) = fits_dir @ ''ring_nebula_dark_frame_10_sec.00000005.DARK.FIT''"
  "fill_field dark_frame_file_template (d08 6) = fits_dir @ ''ring_nebula_dark_frame_10_sec.00000006.DARK.FIT''"
  "fill_field dark_frame_file_template (d08 7) = fits_dir @ ''ring_nebula_dark_frame_10_sec.00000007.DARK.FIT''"
  by code_simp+

lemma red_paths:
  "fill_field red_file_template (d08 0) = fits_dir @ ''ring_nebula_for_10_sec_red.00000000.FIT''"
  "fill_field red_file_template (d08 1) = fits_dir @ ''ring_nebula_for_10_sec_red.00000001.FIT''"
  "fill_field red_file_template (d08 2) = fits_dir @ ''ring_nebula_for_10_sec_red.00000002.FIT''"
  by code_simp+

lemma blue_paths:
  "fill_field blue_file_template (d08 0) = fits_dir @ ''ring_nebula_for_10_sec_blue.00000000.FIT''"
  "fill_field blue_file_template (d08 1) = fits_dir @ ''ring_nebula_for_10_sec_blue.00000001.FIT''"
  "fill_field blue_file_template (d08 2) = fits_dir @ ''ring_nebula_for_10_sec_blue.00000002.FIT''"
  by code_simp+

lemma visible_paths:
  "fill_field visible_file_template (d08 0) = fits_dir @ ''ring_nebula_for_10_sec_visible.00000000.FIT''"
  "fill_field visible_file_template (d08 1) = fits_dir @ ''ring_nebula_for_10_sec_visible.00000001.FIT''"
  "fill_field visible_file_template (d08 2) = fits_dir @ ''ring_nebula_for_10_sec_visible.00000002.FIT''"
  by code_simp+

lemmas notebook_paths = dark_paths red_paths blue_paths visible_paths

lemma constant_disk_dark:
  "i \<in> {4, 5, 6} \<Longrightarrow>
   constant_disk r c dark red blue visible (fill_field dark_frame_file_template (d08 i))
     = Fits [] (Some (full r c dark))"
  by (auto simp: constant_disk_def frame_paths_def notebook_paths)


lemma constant_disk_red:
  "i \<in> {0, 1, 2} \<Longrightarrow>
   constant_disk r c dark red blue visible (fill_field red_file_template (d08 i))
     = Fits [] (Some (full r c red))"
  by (auto simp: constant_disk_def frame_paths_def notebook_paths)

lemma constant_disk_blue:
  "i \<in> {0, 1, 2} \<Longrightarrow>
   constant_disk r c dark red blue visible (fill_field blue_file_template (d08 i))
     = Fits [] (Some (full r c blue))"
  by (auto simp: constant_disk_def frame_paths_def notebook_paths)

lemma constant_disk_visible:
  "i \<in> {0, 1, 2} \<Longrightarrow>
   constant_disk r c dark red blue visible (fill_field visible_file_template (d08 i))
     = Fits [] (Some (full r c visible))"
  by (auto simp: constant_disk_def frame_paths_def notebook_paths)

lemma world_fields:
  "str_format (constant_world r c dark red blue visible) = format_08d"
  "disk (constant_world r c dark red blue visible) = constant_disk r c dark red blue visible"
  "aa_register (constant_world r c dark red blue visible) = register_same_grid"
  "can_write (constant_world r c dark red blue visible) = (\<lambda>path. True)"
  by (simp_all add: constant_world_def)

lemma upto_0_2: "[0..2] = [0, 1, 2::int]"
  by code_simp

lemma upto_4_6: "[4..6] = [4, 5, 6::int]"
  by code_simp


lemma read_dark_constant_world:
  "read_dark_frames (constant_world r c dark red blue visible) dark_frame_file_template 4 6
     = (Inr (replicate 3 ([], Some (full r c dark))),
        frame_paths dark_frame_file_template [4, 5, 6])"
  by (simp add: read_dark_frames_def upto_4_6 world_fields format_08d_def fits_open_def
      constant_disk_dark numeral_3_eq_3 frame_paths_def)

lemma read_red_constant_world:
  "read_pretty_images (constant_world r c dark red blue visible) red_file_template 0 2
     = (Inr (replicate 3 ([], Some (full r c red))), frame_paths red_file_template [0, 1, 2])"
  by (simp add: read_pretty_images_def upto_0_2 world_fields format_08d_def fits_open_def
      constant_disk_red numeral_3_eq_3 frame_paths_def)

lemma read_blue_constant_world:
  "read_pretty_images (constant_world r c dark red blue visible) blue_file_template 0 2
     = (Inr (replicate 3 ([], Some (full r c blue))), frame_paths blue_file_template [0, 1, 2])"
  by (simp add: read_pretty_images_def upto_0_2 world_fields format_08d_def fits_open_def
      constant_disk_blue numeral_3_eq_3 frame_paths_def)

lemma read_visible_constant_world:
  "read_pretty_images (constant_world r c dark red blue visible) visible_file_template 0 2
     = (Inr (replicate 3 ([], Some (full r c visible))),
        frame_paths visible_file_template [0, 1, 2])"
  by (simp add: read_pretty_images_def upto_0_2 world_fields format_08d_def fits_open_def
      constant_disk_visible numeral_3_eq_3 frame_paths_def)

lemma load_constant_world:
  "load_stage (constant_world r c dark red blue visible) =
     Inr (replicate 3 ([], Some (full r c dark)), replicate 3 ([], Some (full r c red)),
          replicate 3 ([], Some (full r c blue)), replicate 3 ([], Some (full r c visible)))"
  by (simp add: load_stage_def read_dark_constant_world read_red_constant_world
      read_blue_constant_world read_visible_constant_world)


lemma frame_at_dark:
  "i \<in> {4, 5, 6} \<Longrightarrow>
   frame_at (constant_world r c dark red blue visible) dark_frame_file_template i
     = Some ([], Some (full r c dark))"
  by (simp add: frame_at_def world_fields format_08d_def constant_disk_dark)


section \<open>The frame loaders: what they return\<close>

lemma dark_loop_pretty_loop: "dark_loop w t idx acc tr = pretty_loop w t idx acc tr"
  by (induction idx arbitrary: acc tr) (simp_all split: sum.splits prod.splits)

lemma read_dark_frames_eq: "read_dark_frames w t s e = read_pretty_images w t s e"
  by (simp add: read_dark_frames_def read_pretty_images_def dark_loop_pretty_loop)

lemma pretty_loop_all_readable:
  "\<forall>i\<in>set idx. frame_at w t i \<noteq> None \<Longrightarrow>
   \<exists>fs. fst (pretty_loop w t idx acc tr) = Inr (acc @ fs) \<and> map Some fs = map (frame_at w t) idx"
proof (induction idx arbitrary: acc tr)
  case Nil
  then show ?case by simp
next
  case (Cons i idx)
  from Cons.prems obtain p h d where p: "str_format w t i = Inr p" and f: "disk w p = Fits h d"
    by (auto simp: frame_at_def split: sum.splits fits_file.splits)
  from Cons.prems have "\<forall>i\<in>set idx. frame_at w t i \<noteq> None" by simp
  from Cons.IH [OF this, of "acc @ [(h, d)]" "tr @ [p]"]
  obtain fs where fs: "fst (pretty_loop w t idx (acc @ [(h, d)]) (tr @ [p])) = Inr (acc @ [(h, d)] @ fs)"
      and m: "map Some fs = map (frame_at w t) idx"
    by auto
  have "fst (pretty_loop w t (i # idx) acc tr) = Inr (acc @ ((h, d) # fs))"
    using p f fs by (simp add: fits_open_def)
  moreover have "map Some ((h, d) # fs) = map (frame_at w t) (i # idx)"
    using p f m by (simp add: frame_at_def)
  ultimately show ?case by blast
qed


text \<open>
  C9: the two loaders are one function: for every template and every pair of indices they
  return the same list of (header, data) pairs, fail in the same cases with the same
  exception, and open the same files.
\<close>

theorem loaders_equal: "read_pretty_images = read_dark_frames"
  by (intro ext) (simp add: read_dark_frames_eq)

text \<open>
  C8: when the start index is above the end index, each loader returns the empty list
  without raising, and hands no path to \<^verbatim>\<open>fits.open\<close>.
\<close>

theorem loader_empty_range:
  assumes "end_index < start_index"
  shows "read_pretty_images w file_template start_index end_index = (Inr [], [])
       \<and> read_dark_frames w file_template start_index end_index = (Inr [], [])"
  using assms by (simp add: read_pretty_images_def read_dark_frames_def)

theorem loader_empty_range_witness:
  "read_pretty_images (constant_world 1 1 10 50 50 50) dark_frame_file_template 6 4 = (Inr [], [])
   \<and> read_dark_frames (constant_world 1 1 10 50 50 50) dark_frame_file_template 6 4 = (Inr [], [])"
  using loader_empty_range [of 4 6 "constant_world 1 1 10 50 50 50" dark_frame_file_template]
  by simp

text \<open>
  C3: over an index range from \<open>s\<close> to \<open>e\<close> whose files are all readable, each loader
  returns a list of exactly \<open>e - s + 1\<close> entries, and the entry at position \<open>k\<close> is the
  header and data of the file of index \<open>s + k\<close>: ascending index order.
\<close>

theorem loader_count_and_order:
  assumes "start_index \<le> end_index + 1"
    and "\<forall>i\<in>{start_index..end_index}. frame_at w file_template i \<noteq> None"
  shows "\<exists>fs. fst (read_pretty_images w file_template start_index end_index) = Inr fs
            \<and> fst (read_dark_frames w file_template start_index end_index) = Inr fs
            \<and> int (length fs) = end_index - start_index + 1
            \<and> (\<forall>k<length fs. frame_at w file_template (start_index + int k) = Some (fs ! k))"
proof -
  from assms(2) have "\<forall>i\<in>set [start_index..end_index]. frame_at w file_template i \<noteq> None"
    by simp
  from pretty_loop_all_readable [OF this, of "[]" "[]"]
  obtain fs where r: "fst (read_pretty_images w file_template start_index end_index) = Inr fs"
    and m: "map Some fs = map (frame_at w file_template) [start_index..end_index]"
    by (auto simp: read_pretty_images_def)
  from m have "length fs = length [start_index..end_index]"
    by (metis length_map)
  then have len: "length fs = nat (end_index - start_index + 1)" by simp
  have nth: "frame_at w file_template (start_index + int k) = Some (fs ! k)" if "k < length fs" for k
  proof -
    from that len have le: "start_index + int k \<le> end_index" by linarith
    have "Some (fs ! k) = map Some fs ! k" using that by simp
    also have "\<dots> = frame_at w file_template ([start_index..end_index] ! k)"
      using that len by (simp add: m)
    also have "\<dots> = frame_at w file_template (start_index + int k)"
      using le by (simp add: nth_upto)
    finally show ?thesis by simp
  qed
  from len assms(1) have "int (length fs) = end_index - start_index + 1" by simp
  with r nth show ?thesis
    by (auto simp: read_dark_frames_eq)
qed

theorem loader_count_and_order_witness:
  "\<exists>fs. fst (read_pretty_images (constant_world 1 1 10 50 50 50) dark_frame_file_template 4 6) = Inr fs
      \<and> fst (read_dark_frames (constant_world 1 1 10 50 50 50) dark_frame_file_template 4 6) = Inr fs
      \<and> length fs = 3
      \<and> fs ! 0 = ([], Some (full 1 1 10)) \<and> fs ! 1 = ([], Some (full 1 1 10))
      \<and> fs ! 2 = ([], Some (full 1 1 10))"
proof -
  let ?w = "constant_world 1 1 10 50 50 50"
  have h1: "(4::int) \<le> 6 + 1" by simp
  have "{4..6} = {4, 5, 6 :: int}" by auto
  then have h2: "\<forall>i\<in>{4..6}. frame_at ?w dark_frame_file_template i \<noteq> None"
    by (simp add: frame_at_dark)
  from loader_count_and_order [OF h1 h2] obtain fs
    where p: "fst (read_pretty_images ?w dark_frame_file_template 4 6) = Inr fs"
      and d: "fst (read_dark_frames ?w dark_frame_file_template 4 6) = Inr fs"
      and len: "int (length fs) = 6 - 4 + 1"
      and nth: "\<forall>k<length fs. frame_at ?w dark_frame_file_template (4 + int k) = Some (fs ! k)"
    by blast
  from len have l3: "length fs = 3" by simp
  from nth [rule_format, of 0] l3 have f0: "frame_at ?w dark_frame_file_template 4 = Some (fs ! 0)"
    by simp
  from nth [rule_format, of 1] l3 have f1: "frame_at ?w dark_frame_file_template 5 = Some (fs ! 1)"
    by simp
  from nth [rule_format, of 2] l3 have f2: "frame_at ?w dark_frame_file_template 6 = Some (fs ! 2)"
    by simp
  from f0 f1 f2 have "fs ! 0 = ([], Some (full 1 1 10))" and "fs ! 1 = ([], Some (full 1 1 10))"
    and "fs ! 2 = ([], Some (full 1 1 10))"
    by (simp_all add: frame_at_dark)
  with p d l3 show ?thesis
    by blast
qed



section \<open>The median reducer: shape and constant stacks\<close>

lemma images_map_Some: "images (map Some fs) = fs"
  by (induction fs) simp_all

lemma np_array_same_shape:
  assumes "\<forall>f\<in>set fs. shape f = shape a"
  shows "np_array (Some a # map Some fs) = Inr (Stack3 (nrows a) (ncols a) (a # fs))"
  using assms by (simp add: list_all_iff images_map_Some)

lemma np_array_shapes_differ:
  assumes "\<exists>f\<in>set fs. shape f \<noteq> shape a"
  shows "np_array (Some a # map Some fs) = Inl ValueError"
  using assms by (auto simp: list_all_iff)

lemma sort_replicate: "sort (replicate n (v::real)) = replicate n v"
  by (simp add: sorted_sort_id sorted_replicate)

lemma np_median1_replicate:
  assumes "0 < n"
  shows "np_median1 (replicate n v) = v"
proof -
  have "n div 2 < n" and "n div 2 - 1 < n"
    using assms by simp_all
  then show ?thesis
    by (simp add: np_median1_def sort_replicate Let_def)
qed

lemma map_const_replicate: "(\<And>x. x \<in> set xs \<Longrightarrow> f x = v) \<Longrightarrow> map f xs = replicate (length xs) v"
  by (induction xs) simp_all

lemma median_pixels_constant:
  assumes "fs \<noteq> []" and "\<forall>f\<in>set fs. f = full r c v"
  shows "map (\<lambda>i. map (\<lambda>j. np_median1 (map (\<lambda>f. rows f ! i ! j) fs)) [0..<c]) [0..<r]
         = replicate r (replicate c v)"
proof -
  have px: "np_median1 (map (\<lambda>f. rows f ! i ! j) fs) = v" if "i < r" "j < c" for i j
  proof -
    have "map (\<lambda>f. rows f ! i ! j) fs = replicate (length fs) v"
      using assms(2) that by (intro map_const_replicate) (auto simp: full_def)
    then show ?thesis
      using assms(1) by (simp add: np_median1_replicate)
  qed
  have row: "map (\<lambda>j. np_median1 (map (\<lambda>f. rows f ! i ! j) fs)) [0..<c] = replicate c v"
    if "i < r" for i
    using map_const_replicate [of "[0..<c]" "\<lambda>j. np_median1 (map (\<lambda>f. rows f ! i ! j) fs)" v]
      px [OF that] by simp
  show ?thesis
    using map_const_replicate [of "[0..<r]"
        "\<lambda>i. map (\<lambda>j. np_median1 (map (\<lambda>f. rows f ! i ! j) fs)) [0..<c]" "replicate c v"]
      row by simp
qed

lemma calculate_median_stack:
  assumes "\<forall>f\<in>set (a # rest). shape f = (r, c)"
  shows "calculate_median (map Some (a # rest)) =
     Inr \<lparr>ncols = c,
          rows = map (\<lambda>i. map (\<lambda>j. np_median1 (map (\<lambda>f. rows f ! i ! j) (a # rest))) [0..<c])
                   [0..<r]\<rparr>"
proof -
  from assms have a: "nrows a = r" "ncols a = c" and rest: "\<forall>f\<in>set rest. shape f = shape a"
    by (simp_all add: shape_def)
  show ?thesis
    using np_array_same_shape [OF rest] a by (simp add: calculate_median_def)
qed

lemma calculate_median_constant:
  "calculate_median [Some (full r c v), Some (full r c v), Some (full r c v)] = Inr (full r c v)"
proof -
  let ?fs = "[full r c v, full r c v, full r c v]"
  have "\<forall>f\<in>set ?fs. shape f = (r, c)"
    by (simp add: shape_full)
  from calculate_median_stack [OF this] median_pixels_constant [of ?fs r c v]
  show ?thesis
    by (simp add: full_def)
qed

lemma shapes_differ_from_head:
  assumes "\<exists>f\<in>set (a # rest). \<exists>g\<in>set (a # rest). shape f \<noteq> shape g"
  shows "\<exists>f\<in>set rest. shape f \<noteq> shape a"
  using assms by (metis set_ConsD)



section \<open>Arrays of different shapes\<close>

text \<open>
  C5, as the specification states it, has the subtractor raise on every pair of
  differently shaped arrays. numpy broadcasts a dark frame of shape (1, 2) against a
  science frame of shape (2, 2): the subtraction returns an array and raises nothing.
\<close>

theorem subtract_broadcasts_counterexample:
  "subtract_median_dark_from_pretty \<lparr>ncols = 2, rows = [[1, 2]]\<rparr>
       \<lparr>ncols = 2, rows = [[10, 20], [30, 40]]\<rparr>
     = Inr \<lparr>ncols = 2, rows = [[9, 18], [29, 38]]\<rparr>
   \<and> shape \<lparr>ncols = 2, rows = [[1, 2]]\<rparr> \<noteq> shape \<lparr>ncols = 2, rows = [[10, 20], [30, 40]]\<rparr>"
  by (simp add: subtract_median_dark_from_pretty_def np_sub_def np_binop_def bdim_def nrows_def
      broadcast_to_def stretch_def shape_def)

text \<open>
  C5, amended: the median reducer raises \<^verbatim>\<open>ValueError\<close> and returns nothing on every
  list of arrays in which two shapes differ; the subtractor raises \<^verbatim>\<open>ValueError\<close> and
  returns nothing on every pair of arrays whose shapes cannot be broadcast (on some axis
  the lengths differ and neither is 1), and returns an array on every other pair.
\<close>

theorem shape_mismatch_raises:
  "((\<exists>f\<in>set fs. \<exists>g\<in>set fs. shape f \<noteq> shape g)
       \<longrightarrow> calculate_median (map Some fs) = Inl ValueError)
   \<and> (\<not> broadcastable (shape median_dark) (shape median_pretty)
       \<longrightarrow> subtract_median_dark_from_pretty median_dark median_pretty = Inl ValueError)
   \<and> (broadcastable (shape median_dark) (shape median_pretty)
       \<longrightarrow> (\<exists>x. subtract_median_dark_from_pretty median_dark median_pretty = Inr x))"
proof (intro conjI impI)
  assume d: "\<exists>f\<in>set fs. \<exists>g\<in>set fs. shape f \<noteq> shape g"
  then obtain a rest where fs: "fs = a # rest"
    by (cases fs) auto
  from d have "\<exists>f\<in>set rest. shape f \<noteq> shape a"
    unfolding fs by (rule shapes_differ_from_head)
  from np_array_shapes_differ [OF this] show "calculate_median (map Some fs) = Inl ValueError"
    by (simp add: calculate_median_def fs)
next
  assume "\<not> broadcastable (shape median_dark) (shape median_pretty)"
  then show "subtract_median_dark_from_pretty median_dark median_pretty = Inl ValueError"
    using np_binop_Inl [of "\<lambda>x y. x - y" median_pretty median_dark]
    by (simp add: subtract_median_dark_from_pretty_def np_sub_def broadcastable_sym)
next
  assume "broadcastable (shape median_dark) (shape median_pretty)"
  then show "\<exists>x. subtract_median_dark_from_pretty median_dark median_pretty = Inr x"
    using np_binop_Inl [of "\<lambda>x y. x - y" median_pretty median_dark]
      np_binop_cases [of "\<lambda>x y. x - y" median_pretty median_dark]
    by (auto simp add: subtract_median_dark_from_pretty_def np_sub_def broadcastable_sym)
qed

theorem shape_mismatch_raises_witness:
  "calculate_median (map Some [full 2 2 10, full 2 3 10]) = Inl ValueError
   \<and> subtract_median_dark_from_pretty (full 2 3 10) (full 2 2 50) = Inl ValueError
   \<and> (\<exists>x. subtract_median_dark_from_pretty (full 1 2 10) (full 2 2 50) = Inr x)"
proof -
  have h1: "\<exists>f\<in>set [full 2 2 10, full 2 3 10]. \<exists>g\<in>set [full 2 2 10, full 2 3 10]. shape f \<noteq> shape g"
    by (auto simp: shape_full)
  have h2: "\<not> broadcastable (shape (full 2 3 10)) (shape (full 2 2 50))"
    by (simp add: shape_full broadcastable_def bdim_def)
  have h3: "broadcastable (shape (full 1 2 10)) (shape (full 2 2 50))"
    by (simp add: shape_full broadcastable_def bdim_def)
  from shape_mismatch_raises [of "[full 2 2 10, full 2 3 10]" "full 2 3 10" "full 2 2 50"] h1 h2
  have "calculate_median (map Some [full 2 2 10, full 2 3 10]) = Inl ValueError"
    and "subtract_median_dark_from_pretty (full 2 3 10) (full 2 2 50) = Inl ValueError"
    by blast+
  moreover from shape_mismatch_raises [of "[]" "full 1 2 10" "full 2 2 50"] h3
  have "\<exists>x. subtract_median_dark_from_pretty (full 1 2 10) (full 2 2 50) = Inr x"
    by blast
  ultimately show ?thesis
    by blast
qed

section \<open>The run on constant frames\<close>

lemma calibrated_constant_world:
  "calibrated (constant_world r c dark red blue visible)
     = Inr (full r c (red - dark), full r c (blue - dark), full r c (visible - dark))"
  by (simp add: calibrated_def load_constant_world calibrate_stage_def numeral_3_eq_3
      calculate_median_constant subtract_full)

lemma aligned_constant_world:
  "aligned (constant_world r c dark red blue visible)
     = Inr ((full r c (visible - dark), replicate r (replicate c False)),
            (full r c (visible - dark), replicate r (replicate c False)),
            full r c (visible - dark))"
  by (simp add: aligned_def calibrated_constant_world align_stage_def world_fields
      register_same_grid_def shape_def nrows_def full_def)

lemma pipeline_constant_world:
  "pipeline (constant_world r c dark red blue visible) Map.empty
     = (None, [''aligned_blue.fits'' \<mapsto> full r c (visible - dark),
               ''aligned_red.fits'' \<mapsto> full r c (visible - dark),
               ''aligned_green.fits'' \<mapsto> full r c (visible - dark)])"
  by (simp add: pipeline_def aligned_constant_world write_stage_def writeto_def world_fields)

text \<open>
  The scenario of three dark frames of shape (100, 100) filled with 10 and three frames
  per channel filled with 50, up to the alignment: the median dark is the constant 10,
  each channel median the constant 50, and each subtracted channel the constant 40.
\<close>

lemma constant_scenario_calibration:
  "calculate_median (map snd (replicate 3 ([], Some (full 100 100 10)))) = Inr (full 100 100 10)
   \<and> calculate_median (map snd (replicate 3 ([], Some (full 100 100 50)))) = Inr (full 100 100 50)
   \<and> subtract_median_dark_from_pretty (full 100 100 10) (full 100 100 50) = Inr (full 100 100 40)
   \<and> calibrated (constant_world 100 100 10 50 50 50)
       = Inr (full 100 100 40, full 100 100 40, full 100 100 40)"
  by (simp add: numeral_3_eq_3 calculate_median_constant subtract_full calibrated_constant_world)

section \<open>The alignment stage and the written files\<close>

lemma calibrate_stage_visible:
  assumes "calibrate_stage (dark_frames, pretty_red_images, pretty_blue_images, pretty_visible_images)
             = Inr (subtracted_red, subtracted_blue, subtracted_visible)"
  shows "\<exists>median_dark median_visible.
           calculate_median (map snd dark_frames) = Inr median_dark
         \<and> calculate_median (map snd pretty_visible_images) = Inr median_visible
         \<and> subtract_median_dark_from_pretty median_dark median_visible = Inr subtracted_visible"
  using assms by (auto simp: calibrate_stage_def Let_def split: sum.splits)

text \<open>
  Both calls of \<^verbatim>\<open>aa.register\<close> pass the visible frame as the source, the first
  argument, and the blue or the red frame as the target; the third result is the
  visible frame itself.
\<close>

lemma align_stage_calls:
  assumes "align_stage w (subtracted_red, subtracted_blue, subtracted_visible)
             = Inr (blue_result, red_result, green)"
  shows "aa_register w subtracted_visible subtracted_blue = Inr blue_result
       \<and> aa_register w subtracted_visible subtracted_red = Inr red_result
       \<and> green = subtracted_visible"
  using assms by (auto simp: align_stage_def Let_def split: sum.splits)

lemma write_stage_files:
  assumes "write_stage w aligned_blue aligned_red green out = (None, out')"
  shows "out' ''aligned_blue.fits'' = Some aligned_blue
       \<and> out' ''aligned_red.fits'' = Some aligned_red
       \<and> out' ''aligned_green.fits'' = Some green"
  using assms by (auto simp: write_stage_def writeto_def split: if_splits)

text \<open>
  C2: the notebook's comment says that blue is aligned to the visible image, but each
  call hands the visible frame to \<^verbatim>\<open>aa.register\<close> as the source, the frame that is
  transformed, and the blue or the red frame as the target. Whenever the run reaches its
  end, \<^verbatim>\<open>aligned_blue.fits\<close> and \<^verbatim>\<open>aligned_red.fits\<close> hold the visible frame
  registered onto the blue and onto the red grid.
\<close>

theorem aligned_files_are_registered_visible:
  assumes "pipeline w out = (None, out')"
  shows "\<exists>subtracted_red subtracted_blue subtracted_visible
            aligned_blue footprint_blue aligned_red footprint_red.
           calibrated w = Inr (subtracted_red, subtracted_blue, subtracted_visible)
         \<and> aa_register w subtracted_visible subtracted_blue = Inr (aligned_blue, footprint_blue)
         \<and> aa_register w subtracted_visible subtracted_red = Inr (aligned_red, footprint_red)
         \<and> out' ''aligned_blue.fits'' = Some aligned_blue
         \<and> out' ''aligned_red.fits'' = Some aligned_red"
proof -
  from assms obtain ab fb ar fr green
    where al: "aligned w = Inr ((ab, fb), (ar, fr), green)"
      and wr: "write_stage w ab ar green out = (None, out')"
    by (auto simp: pipeline_def split: sum.splits prod.splits)
  from al obtain sr sb sv
    where cal: "calibrated w = Inr (sr, sb, sv)"
      and st: "align_stage w (sr, sb, sv) = Inr ((ab, fb), (ar, fr), green)"
    by (auto simp: aligned_def split: sum.splits)
  from align_stage_calls [OF st] write_stage_files [OF wr] cal show ?thesis
    by blast
qed

text \<open>
  On a disk whose dark frames are 0, red frames 3, blue frames 2 and visible frames 1,
  with a registration that returns its source unchanged, the subtracted blue frame is 2
  and the subtracted red frame 3, and both written files hold the visible pixels, 1.
\<close>

theorem aligned_files_are_registered_visible_witness:
  "calibrated (constant_world 2 2 0 3 2 1) = Inr (full 2 2 3, full 2 2 2, full 2 2 1)
   \<and> snd (pipeline (constant_world 2 2 0 3 2 1) Map.empty) ''aligned_blue.fits'' = Some (full 2 2 1)
   \<and> snd (pipeline (constant_world 2 2 0 3 2 1) Map.empty) ''aligned_red.fits'' = Some (full 2 2 1)"
proof -
  let ?w = "constant_world 2 2 0 3 2 1"
  obtain out' where run: "pipeline ?w Map.empty = (None, out')"
    by (simp add: pipeline_constant_world)
  have cal: "calibrated ?w = Inr (full 2 2 3, full 2 2 2, full 2 2 1)"
    by (simp add: calibrated_constant_world)
  from aligned_files_are_registered_visible [OF run] cal
  have "out' ''aligned_blue.fits'' = Some (full 2 2 1)"
    and "out' ''aligned_red.fits'' = Some (full 2 2 1)"
    by (auto simp: world_fields register_same_grid_def)
  with cal run show ?thesis
    by simp
qed

text \<open>
  C10: whenever the run reaches its end, the file \<^verbatim>\<open>aligned_green.fits\<close> holds the
  array that the subtractor returned for the visible channel (the median of the visible
  frames minus the median of the dark frames), with no registration applied to it.
\<close>

theorem green_file_is_subtracted_visible:
  assumes "pipeline w out = (None, out')"
  shows "\<exists>dark_frames pretty_red_images pretty_blue_images pretty_visible_images
            median_dark median_visible subtracted_visible.
           load_stage w = Inr (dark_frames, pretty_red_images, pretty_blue_images, pretty_visible_images)
         \<and> calculate_median (map snd dark_frames) = Inr median_dark
         \<and> calculate_median (map snd pretty_visible_images) = Inr median_visible
         \<and> subtract_median_dark_from_pretty median_dark median_visible = Inr subtracted_visible
         \<and> out' ''aligned_green.fits'' = Some subtracted_visible"
proof -
  from assms obtain ab fb ar fr green
    where al: "aligned w = Inr ((ab, fb), (ar, fr), green)"
      and wr: "write_stage w ab ar green out = (None, out')"
    by (auto simp: pipeline_def split: sum.splits prod.splits)
  from al obtain sr sb sv
    where cal: "calibrated w = Inr (sr, sb, sv)"
      and st: "align_stage w (sr, sb, sv) = Inr ((ab, fb), (ar, fr), green)"
    by (auto simp: aligned_def split: sum.splits)
  from cal obtain d pr pb pv
    where ld: "load_stage w = Inr (d, pr, pb, pv)"
      and cs: "calibrate_stage (d, pr, pb, pv) = Inr (sr, sb, sv)"
    by (auto simp: calibrated_def split: sum.splits)
  from calibrate_stage_visible [OF cs] obtain md mv
    where "calculate_median (map snd d) = Inr md"
      and "calculate_median (map snd pv) = Inr mv"
      and "subtract_median_dark_from_pretty md mv = Inr sv"
    by blast
  moreover from align_stage_calls [OF st] have "green = sv"
    by simp
  moreover from write_stage_files [OF wr] have "out' ''aligned_green.fits'' = Some green"
    by simp
  ultimately show ?thesis
    using ld by blast
qed

theorem green_file_is_subtracted_visible_witness:
  "\<exists>median_dark median_visible subtracted_visible.
       calculate_median (replicate 3 (Some (full 2 2 10))) = Inr median_dark
     \<and> calculate_median (replicate 3 (Some (full 2 2 50))) = Inr median_visible
     \<and> subtract_median_dark_from_pretty median_dark median_visible = Inr subtracted_visible
     \<and> snd (pipeline (constant_world 2 2 10 60 70 50) Map.empty) ''aligned_green.fits''
         = Some subtracted_visible"
proof -
  let ?w = "constant_world 2 2 10 60 70 50"
  obtain out' where run: "pipeline ?w Map.empty = (None, out')"
    by (simp add: pipeline_constant_world)
  from green_file_is_subtracted_visible [OF run] show ?thesis
    by (auto simp: load_constant_world run)
qed

end
